theory Spec2Isabelle
  imports Complex_Main "HOL-Library.AList"
begin

section \<open>The Cloudant nodes of 77-cloudant-cf.js\<close>

text \<open>
  The file registers three node types with the flow host: a connection node, an
  output node (insert and delete) and an input node (read by id, by search index, or
  all documents). This theory embeds the functions of the two working nodes and the
  database-name cleaner they share.

  Strings are \<^typ>\<open>string\<close>; a character stands for a UTF-16 code unit in the
  range U+0000 to U+00FF, so the case mapping and the whitespace class below are the
  ones JavaScript has on that range.
\<close>

subsection \<open>Strings\<close>

text \<open>
  \<^verbatim>\<open>String.prototype.toLowerCase\<close> on U+0000..U+00FF: the letters A to Z and the
  Latin-1 capitals U+00C0..U+00DE (U+00D7, the multiplication sign, apart) move up by 32.
\<close>

definition isUpperCase :: "char \<Rightarrow> bool" where
  "isUpperCase c =
     (let n = (of_char c :: nat)
      in (65 \<le> n \<and> n \<le> 90) \<or> (192 \<le> n \<and> n \<le> 222 \<and> n \<noteq> 215))"

definition toLowerCaseChar :: "char \<Rightarrow> char" where
  "toLowerCaseChar c = (if isUpperCase c then char_of ((of_char c :: nat) + 32) else c)"

definition toLowerCase :: "string \<Rightarrow> string" where
  "toLowerCase s = map toLowerCaseChar s"

text \<open>The class \<^verbatim>\<open>\s\<close> of a JavaScript regular expression, on U+0000..U+00FF:
  tab, line feed, vertical tab, form feed, carriage return, space, no-break space.\<close>

definition isWhiteSpace :: "char \<Rightarrow> bool" where
  "isWhiteSpace c = (c \<in> set [CHR 0x09, CHR 0x0A, CHR 0x0B, CHR 0x0C, CHR 0x0D, CHR 0x20, CHR 0xA0])"

text \<open>The character class \<^verbatim>\<open>[\s\\/]\<close>: white space, backslash, slash.\<close>

definition isSpaceOrSlash :: "char \<Rightarrow> bool" where
  "isSpaceOrSlash c = (isWhiteSpace c \<or> c = CHR 0x5C \<or> c = CHR ''/'')"

text \<open>\<^verbatim>\<open>s.replace(/^_/, "")\<close>: one underscore at the start is removed.\<close>

fun replaceLeadingUnderscore :: "string \<Rightarrow> string" where
  "replaceLeadingUnderscore [] = []"
| "replaceLeadingUnderscore (c # cs) = (if c = CHR ''_'' then cs else c # cs)"

text \<open>\<^verbatim>\<open>s.replace(/[\s\\/]+/g, "-")\<close>: scanning from the left, each longest run of
  characters of the class becomes one hyphen.\<close>

function replaceSpaceOrSlashRuns :: "string \<Rightarrow> string" where
  "replaceSpaceOrSlashRuns [] = []"
| "replaceSpaceOrSlashRuns (c # cs) =
     (if isSpaceOrSlash c
      then CHR ''-'' # replaceSpaceOrSlashRuns (dropWhile isSpaceOrSlash cs)
      else c # replaceSpaceOrSlashRuns cs)"
  by pat_completeness auto
termination
  by (relation "measure length") (auto simp: length_dropWhile_le less_Suc_eq_le)

text \<open>\<^verbatim>\<open>String.prototype.trim\<close>: white space is removed at both ends.\<close>

definition trim :: "string \<Rightarrow> string" where
  "trim s = rev (dropWhile isWhiteSpace (rev (dropWhile isWhiteSpace s)))"

text \<open>\<^verbatim>\<open>s.indexOf(pat) >= 0\<close>: \<open>pat\<close> occurs somewhere in \<open>s\<close>.\<close>

fun occursIn :: "string \<Rightarrow> string \<Rightarrow> bool" where
  "occursIn pat [] = (pat = [])"
| "occursIn pat (c # cs) = (take (length pat) (c # cs) = pat \<or> occursIn pat cs)"

text \<open>
  \<^verbatim>\<open>s.substring(start, end)\<close>: both indices are clamped to the string, swapped when
  \<open>start\<close> is the larger, and an \<open>end\<close> that is \<^verbatim>\<open>undefined\<close> (here \<open>None\<close>)
  is the length.
\<close>

definition clampIndex :: "string \<Rightarrow> int \<Rightarrow> nat" where
  "clampIndex s i = nat (min (max i 0) (int (length s)))"

definition substring :: "string \<Rightarrow> int \<Rightarrow> int option \<Rightarrow> string" where
  "substring s start endo =
     (let st = clampIndex s start;
          en = (case endo of None \<Rightarrow> length s | Some e \<Rightarrow> clampIndex s e);
          lo = min st en;
          hi = max st en
      in take (hi - lo) (drop lo s))"

subsection \<open>The database name\<close>

text \<open>
  \<^verbatim>\<open>_cleanDatabaseName(database, node)\<close> (an Isabelle name cannot start with an
  underscore). The result is the new name with the warnings given to
  \<^verbatim>\<open>node.warn\<close>.
\<close>

definition cleanDatabaseName :: "string \<Rightarrow> string \<times> string list" where
  "cleanDatabaseName database =
     (let newDatabase = database;
          newDatabase = toLowerCase newDatabase;
          newDatabase = replaceLeadingUnderscore newDatabase;
          newDatabase = replaceSpaceOrSlashRuns newDatabase
      in (newDatabase,
          if newDatabase \<noteq> database
          then [''Database renamed  as '' @ [CHR 0x27] @ newDatabase @ [CHR 0x27] @ ''.'']
          else []))"

subsection \<open>JavaScript values\<close>

text \<open>
  The values a message carries: the primitives, arrays, and objects. A plain object
  (\<open>JObj\<close>) has the fields of its own and the prototype every object literal has,
  \<^verbatim>\<open>Object.prototype\<close>; \<open>JObjP\<close> is an object whose prototype has been replaced,
  by \<^verbatim>\<open>null\<close> or by the object given. The fields are a list of pairs in the order
  in which they were created: \<^const>\<open>AList.update\<close> is the creation or change of a
  field of the object's own (in place for a field it has, at the end for a new one) and
  \<^const>\<open>AList.delete\<close> is \<^verbatim>\<open>delete o[k]\<close>. A finite number is a rational (every
  double is one); the two infinities, functions, symbols and the objects of a class
  (Buffer, Date) are not modelled, and an array has no named properties beside its
  elements.
\<close>

datatype jsval =
    JUndefined
  | JNull
  | JBool bool
  | JNum rat
  | JNaN
  | JStr string
  | JArr "jsval list"
  | JObj "(string \<times> jsval) list"
  | JObjP "(string \<times> jsval) list" jsval

type_synonym jsobject = "(string \<times> jsval) list"

text \<open>
  \<open>Unmodelled\<close> is not an exception of the language: it marks a step the model does
  not follow (an array used as an options object, a value with a replaced prototype
  that is converted or enumerated).
\<close>

datatype exn = TypeError | SyntaxError | Unmodelled

fun typeof :: "jsval \<Rightarrow> string" where
  "typeof JUndefined = ''undefined''"
| "typeof JNull = ''object''"
| "typeof (JBool b) = ''boolean''"
| "typeof (JNum r) = ''number''"
| "typeof JNaN = ''number''"
| "typeof (JStr s) = ''string''"
| "typeof (JArr xs) = ''object''"
| "typeof (JObj kvs) = ''object''"
| "typeof (JObjP kvs p) = ''object''"

text \<open>ToBoolean: what \<^verbatim>\<open>if (v)\<close> and \<^verbatim>\<open>v || w\<close> test.\<close>

fun truthy :: "jsval \<Rightarrow> bool" where
  "truthy JUndefined = False"
| "truthy JNull = False"
| "truthy (JBool b) = b"
| "truthy (JNum r) = (r \<noteq> 0)"
| "truthy JNaN = False"
| "truthy (JStr s) = (s \<noteq> [])"
| "truthy (JArr xs) = True"
| "truthy (JObj kvs) = True"
| "truthy (JObjP kvs p) = True"

text \<open>\<^verbatim>\<open>a || b\<close> on values (the right operand has no effect wherever this is used).\<close>

definition jsOr :: "jsval \<Rightarrow> jsval \<Rightarrow> jsval" where
  "jsOr a b = (if truthy a then a else b)"

text \<open>The fields of an object's own: whether it has one, and its value.\<close>

definition hasProp :: "jsobject \<Rightarrow> string \<Rightarrow> bool" where
  "hasProp kvs k = (map_of kvs k \<noteq> None)"

definition getProp :: "jsobject \<Rightarrow> string \<Rightarrow> jsval" where
  "getProp kvs k = (case map_of kvs k of None \<Rightarrow> JUndefined | Some v \<Rightarrow> v)"

text \<open>
  The order in which the engine lists the fields of an object, for
  \<^verbatim>\<open>for ... in\<close>: the names that are array indices (a decimal numeral without a
  leading zero, below 4294967295) come first, by value, and the other names follow
  in the order of their creation.
\<close>

definition isDigit :: "char \<Rightarrow> bool" where
  "isDigit c = (48 \<le> (of_char c :: nat) \<and> (of_char c :: nat) \<le> 57)"

definition indexValue :: "string \<Rightarrow> nat" where
  "indexValue s = foldl (\<lambda>n c. 10 * n + ((of_char c :: nat) - 48)) 0 s"

definition isArrayIndex :: "string \<Rightarrow> bool" where
  "isArrayIndex s =
     (s \<noteq> [] \<and> list_all isDigit s \<and> (s = ''0'' \<or> hd s \<noteq> CHR ''0'') \<and> indexValue s < 4294967295)"

definition ownKeys :: "jsobject \<Rightarrow> string list" where
  "ownKeys kvs =
     sort_key indexValue (filter isArrayIndex (map fst kvs)) @
     filter (\<lambda>k. \<not> isArrayIndex k) (map fst kvs)"

text \<open>
  Reading a name along the prototype chain, for the names this file reads from a
  value it has not made itself (\<^verbatim>\<open>_id\<close>, \<^verbatim>\<open>id\<close>, \<^verbatim>\<open>_rev\<close>, \<^verbatim>\<open>q\<close>,
  \<^verbatim>\<open>rows\<close>, \<^verbatim>\<open>doc\<close>, \<^verbatim>\<open>length\<close>, \<^verbatim>\<open>hasOwnProperty\<close>, \<^verbatim>\<open>toString\<close>,
  \<^verbatim>\<open>__proto__\<close>): none is an array index, so an array gives only its length.
  \<open>None\<close> means that no object of the chain has a field of that name of its own; what
  \<^verbatim>\<open>Object.prototype\<close> and \<^verbatim>\<open>Array.prototype\<close> hold (methods, and the accessor
  \<^verbatim>\<open>__proto__\<close>) is not a field here, and \<open>reachesObjectPrototype\<close> says whether the
  chain ends there or at \<^verbatim>\<open>null\<close>.
\<close>

fun chainGet :: "jsval \<Rightarrow> string \<Rightarrow> jsval option" where
  "chainGet (JObj kvs) k = map_of kvs k"
| "chainGet (JObjP kvs p) k = (case map_of kvs k of Some v \<Rightarrow> Some v | None \<Rightarrow> chainGet p k)"
| "chainGet (JArr xs) k = (if k = ''length'' then Some (JNum (of_nat (length xs))) else None)"
| "chainGet v k = None"

fun reachesObjectPrototype :: "jsval \<Rightarrow> bool" where
  "reachesObjectPrototype (JObj kvs) = True"
| "reachesObjectPrototype (JArr xs) = True"
| "reachesObjectPrototype (JObjP kvs p) = reachesObjectPrototype p"
| "reachesObjectPrototype v = False"

fun isObject :: "jsval \<Rightarrow> bool" where
  "isObject (JObj kvs) = True"
| "isObject (JObjP kvs p) = True"
| "isObject (JArr xs) = True"
| "isObject v = False"

text \<open>\<^verbatim>\<open>v.k\<close> for an object \<open>v\<close>.\<close>

definition getField :: "jsval \<Rightarrow> string \<Rightarrow> jsval" where
  "getField v k = (case chainGet v k of None \<Rightarrow> JUndefined | Some x \<Rightarrow> x)"

text \<open>\<^verbatim>\<open>k in v\<close>, for the same names; on a value that is not an object the operator
  throws.\<close>

definition inOp :: "string \<Rightarrow> jsval \<Rightarrow> exn + bool" where
  "inOp k v = (if isObject v then Inr (chainGet v k \<noteq> None) else Inl TypeError)"

text \<open>
  What the language runtime computes and this file only calls: the decimal form of a
  number, the integer a string converts to (with the infinities as integers beyond any
  string's length), \<^verbatim>\<open>JSON.parse\<close> (\<open>None\<close> when it throws) and \<^verbatim>\<open>JSON.stringify\<close>.
  They are parameters of the model.
\<close>

record runtime =
  NumberToString :: "rat \<Rightarrow> string"
  StringToInteger :: "string \<Rightarrow> int"
  JSON_parse :: "string \<Rightarrow> jsval option"
  JSON_stringify :: "jsval \<Rightarrow> jsval"

fun joinComma :: "string list \<Rightarrow> string" where
  "joinComma [] = []"
| "joinComma [s] = s"
| "joinComma (s # t # ss) = s @ '','' @ joinComma (t # ss)"

text \<open>The results of a list of steps, or the exception of the first one that throws.\<close>

fun firstError :: "(exn + 'a) list \<Rightarrow> exn + 'a list" where
  "firstError [] = Inr []"
| "firstError (Inl e # rs) = Inl e"
| "firstError (Inr x # rs) = (case firstError rs of Inl e \<Rightarrow> Inl e | Inr xs \<Rightarrow> Inr (x # xs))"

text \<open>
  ToString, as string concatenation applies it. An object is converted by its
  \<^verbatim>\<open>valueOf\<close> and then its \<^verbatim>\<open>toString\<close>: the inherited \<^verbatim>\<open>valueOf\<close> returns
  the object, and a field of its own by that name is no function, so the text is that of
  the inherited \<^verbatim>\<open>toString\<close>, and a plain object that hides it with a field of its
  own cannot be converted. An array joins the texts of its elements.
\<close>

fun toStr :: "runtime \<Rightarrow> jsval \<Rightarrow> exn + string" where
  "toStr rt JUndefined = Inr ''undefined''"
| "toStr rt JNull = Inr ''null''"
| "toStr rt (JBool b) = Inr (if b then ''true'' else ''false'')"
| "toStr rt (JNum r) = Inr (NumberToString rt r)"
| "toStr rt JNaN = Inr ''NaN''"
| "toStr rt (JStr s) = Inr s"
| "toStr rt (JArr xs) =
     (case firstError (map (\<lambda>x. if x = JUndefined \<or> x = JNull then Inr [] else toStr rt x) xs) of
        Inl e \<Rightarrow> Inl e
      | Inr parts \<Rightarrow> Inr (joinComma parts))"
| "toStr rt (JObj kvs) =
     (if map_of kvs ''toString'' = None then Inr ''[object Object]'' else Inl TypeError)"
| "toStr rt (JObjP kvs p) = Inl Unmodelled"

text \<open>ToIntegerOrInfinity, of a value that is not \<^verbatim>\<open>undefined\<close>; an object is converted
  to its text first, and the text of a plain object is no number.\<close>

fun toIntegerOrInfinity :: "runtime \<Rightarrow> jsval \<Rightarrow> exn + int" where
  "toIntegerOrInfinity rt (JNum r) = Inr (if r < 0 then - \<lfloor>- r\<rfloor> else \<lfloor>r\<rfloor>)"
| "toIntegerOrInfinity rt (JBool b) = Inr (if b then 1 else 0)"
| "toIntegerOrInfinity rt (JStr s) = Inr (StringToInteger rt s)"
| "toIntegerOrInfinity rt (JArr xs) =
     (case toStr rt (JArr xs) of Inl e \<Rightarrow> Inl e | Inr t \<Rightarrow> Inr (StringToInteger rt t))"
| "toIntegerOrInfinity rt (JObj kvs) =
     (case toStr rt (JObj kvs) of Inl e \<Rightarrow> Inl e | Inr t \<Rightarrow> Inr 0)"
| "toIntegerOrInfinity rt (JObjP kvs p) = Inl Unmodelled"
| "toIntegerOrInfinity rt v = Inr 0"

subsection \<open>The backend and what a node does\<close>

text \<open>
  What a node does is the list of its events, in order: the calls it makes to the
  database client (insert, create, destroy, get, search, list) and what it gives the
  flow host (the text of a \<^verbatim>\<open>node.warn\<close> or a \<^verbatim>\<open>node.error\<close>, the message of a
  \<^verbatim>\<open>node.send\<close>). A call is answered with an error or a body; an error carries the
  status code and the description the nodes read. \<^verbatim>\<open>cloudant.use\<close> makes a handle and
  calls nothing.

  For the output node the client is a machine with a state of its own, which answers a
  call and changes its state; the callbacks of that node read nothing a later message
  can change, so the events of one message are given as one list. For the input node
  the answer to a call is a step of its own, which can come after other messages have
  been received (see \<open>inStep\<close> below).
\<close>

record cerr =
  status_code :: int
  description :: string

datatype call =
    DbInsert string jsval
  | DbCreate string
  | DbDestroy string jsval jsval
  | DbGet string jsval
  | DbSearch string string string jsval
  | DbList string jsval

datatype event =
    Call call
  | NodeWarn string
  | NodeError string
  | NodeSend jsval

type_synonym 'b backend = "'b \<Rightarrow> call \<Rightarrow> (cerr option \<times> jsval) \<times> 'b"

record node_base =
  database :: string

record out_node = node_base +
  operation :: string
  payonly :: bool

record in_node = node_base +
  search :: string
  design :: string
  index :: string
  inputId :: jsval

definition MAX_ATTEMPTS :: int where
  "MAX_ATTEMPTS = 3"

subsection \<open>The output node: cleaning a message\<close>

definition allowedWords :: "string list" where
  "allowedWords =
     [''_id'', ''_rev'', ''_attachments'', ''_deleted'', ''_revisions'',
      ''_revs_info'', ''_conflicts'', ''_deleted_conflicts'', ''_local_seq'']"

text \<open>\<^verbatim>\<open>key[0] !== "_" || allowedWords.indexOf(key) >= 0\<close>; \<^verbatim>\<open>key[0]\<close> of the empty
  string is \<^verbatim>\<open>undefined\<close>.\<close>

definition isFieldNameValid :: "string \<Rightarrow> bool" where
  "isFieldNameValid key =
     ((case key of [] \<Rightarrow> True | c # cs \<Rightarrow> c \<noteq> CHR ''_'') \<or> key \<in> set allowedWords)"

text \<open>The object with the given fields of its own and the given prototype: \<open>None\<close>
  is \<^verbatim>\<open>Object.prototype\<close>, which the object had when the loop began.\<close>

definition objectOf :: "jsobject \<Rightarrow> jsval option \<Rightarrow> jsval" where
  "objectOf own proto = (case proto of None \<Rightarrow> JObj own | Some p \<Rightarrow> JObjP own p)"

text \<open>\<^verbatim>\<open>msg.hasOwnProperty\<close> is the inherited method: no object of the chain has a
  field of that name, and the chain ends at \<^verbatim>\<open>Object.prototype\<close>.\<close>

definition hasOwnPropertyIsMethod :: "jsval \<Rightarrow> bool" where
  "hasOwnPropertyIsMethod v = (chainGet v ''hasOwnProperty'' = None \<and> reachesObjectPrototype v)"

text \<open>\<^verbatim>\<open>msg.length\<close> as the second argument of \<^verbatim>\<open>substring\<close>: \<open>None\<close> for
  \<^verbatim>\<open>undefined\<close>, which is what an object without such a field gives.\<close>

definition lengthArg :: "runtime \<Rightarrow> jsval \<Rightarrow> exn + int option" where
  "lengthArg rt msg =
     (if getField msg ''length'' = JUndefined then Inr None
      else (case toIntegerOrInfinity rt (getField msg ''length'') of
              Inl e \<Rightarrow> Inl e
            | Inr n \<Rightarrow> Inr (Some n)))"

text \<open>
  The assignment \<^verbatim>\<open>msg[k] = v\<close>. A field of the object's own is changed in place.
  Otherwise the name is looked for along the prototype chain: the one accessor there is
  \<^verbatim>\<open>__proto__\<close> of \<^verbatim>\<open>Object.prototype\<close>, whose setter makes an object or
  \<^verbatim>\<open>null\<close> the new prototype and does nothing for another value; it is reached
  unless an object of the chain has a field \<^verbatim>\<open>__proto__\<close> of its own or the chain
  ends at \<^verbatim>\<open>null\<close>. In every other case the object gets a new field of its own.
\<close>

definition setterReached :: "jsval option \<Rightarrow> bool" where
  "setterReached proto =
     (case proto of
        None \<Rightarrow> True
      | Some p \<Rightarrow> chainGet p ''__proto__'' = None \<and> reachesObjectPrototype p)"

definition assign :: "jsobject \<Rightarrow> jsval option \<Rightarrow> string \<Rightarrow> jsval \<Rightarrow> jsobject \<times> jsval option" where
  "assign own proto k v =
     (if hasProp own k then (AList.update k v own, proto)
      else if k = ''__proto__'' \<and> setterReached proto
      then (own, if isObject v \<or> v = JNull then Some v else proto)
      else (AList.update k v own, proto))"

definition renamedText :: "string \<Rightarrow> string \<Rightarrow> string" where
  "renamedText key newKey =
     ''Property '' @ [CHR 0x27] @ key @ [CHR 0x27] @ '' renamed to '' @ [CHR 0x27] @ newKey
       @ [CHR 0x27] @ ''.''"

text \<open>
  The loop of \<^verbatim>\<open>cleanMessage\<close>. The engine lists the keys of the object when the
  \<^verbatim>\<open>for ... in\<close> starts: a key added by the body is not visited, and a key is
  skipped when the object has lost it by the time its turn comes (the body deletes only
  the key it is at, so this happens to no key of an object). The arguments are what is
  left of that list, the fields of the object and its prototype as they are now, and the
  warnings so far; the result is the exception that ends the loop (if any), the object
  and the warnings. \<^verbatim>\<open>msg.hasOwnProperty(key)\<close> throws when the name
  \<^verbatim>\<open>hasOwnProperty\<close> no longer gives the method, and holds otherwise for the key of
  the object's own that the loop is at.
\<close>

fun cleanKeys ::
  "runtime \<Rightarrow> string list \<Rightarrow> jsobject \<Rightarrow> jsval option \<Rightarrow> string list
     \<Rightarrow> exn option \<times> jsval \<times> string list" where
  "cleanKeys rt [] own proto warns = (None, objectOf own proto, warns)"
| "cleanKeys rt (key # keys) own proto warns =
     (if hasProp own key
      then (if hasOwnPropertyIsMethod (objectOf own proto)
            then (if isFieldNameValid key then cleanKeys rt keys own proto warns
                  else (case lengthArg rt (objectOf own proto) of
                          Inl e \<Rightarrow> (Some e, objectOf own proto, warns)
                        | Inr len \<Rightarrow>
                            (let newKey = substring key 1 len;
                                 own1 = fst (assign own proto newKey (getProp own key));
                                 proto1 = snd (assign own proto newKey (getProp own key));
                                 own2 = AList.delete key own1
                             in cleanKeys rt keys own2 proto1 (warns @ [renamedText key newKey]))))
            else (Some TypeError, objectOf own proto, warns))
      else cleanKeys rt keys own proto warns)"

text \<open>
  \<^verbatim>\<open>cleanMessage(msg)\<close>: what it returns or the exception that leaves it, with the
  warnings it has given. An array or a string has only index keys, which are valid
  names, and the other primitives have no keys, so only an object is changed. A value
  that comes in with a replaced prototype is not followed.
\<close>

fun cleanMessage :: "runtime \<Rightarrow> jsval \<Rightarrow> (exn + jsval) \<times> string list" where
  "cleanMessage rt (JObj kvs) =
     (case cleanKeys rt (ownKeys kvs) kvs None [] of
        (None, doc, warns) \<Rightarrow> (Inr doc, warns)
      | (Some e, doc, warns) \<Rightarrow> (Inl e, warns))"
| "cleanMessage rt (JObjP kvs p) = (Inl Unmodelled, [])"
| "cleanMessage rt v = (Inr v, [])"

text \<open>The text \<^verbatim>\<open>"{\"" + root + "\":\"" + msg + "\"}"\<close>.\<close>

definition wrapText :: "runtime \<Rightarrow> string \<Rightarrow> jsval \<Rightarrow> exn + string" where
  "wrapText rt root' msg =
     (case toStr rt msg of
        Inl e \<Rightarrow> Inl e
      | Inr t \<Rightarrow>
          Inr (''{'' @ [CHR 0x22] @ root' @ [CHR 0x22] @ '':'' @ [CHR 0x22] @ t @ [CHR 0x22] @ ''}''))"

text \<open>
  The \<^verbatim>\<open>catch\<close> block of \<^verbatim>\<open>parseMessage\<close> and what follows it: the text is built
  and parsed outside any \<^verbatim>\<open>try\<close>, and the result is cleaned.
\<close>

definition wrapAndClean :: "runtime \<Rightarrow> string \<Rightarrow> jsval \<Rightarrow> (exn + jsval) \<times> string list" where
  "wrapAndClean rt root' msg =
     (case wrapText rt root' msg of
        Inl e \<Rightarrow> (Inl e, [])
      | Inr t \<Rightarrow>
          (case JSON_parse rt t of
             None \<Rightarrow> (Inl SyntaxError, [])
           | Some m \<Rightarrow> cleanMessage rt m))"

text \<open>
  \<^verbatim>\<open>parseMessage(msg, root)\<close> (\<open>root'\<close> is its \<open>root\<close>): what it returns or
  the exception that leaves it, with the warnings given. \<^verbatim>\<open>JSON.parse(msg)\<close>
  converts \<open>msg\<close> to text first. When it throws, \<open>msg\<close> is still the input in the
  \<^verbatim>\<open>catch\<close> block; when the second \<^verbatim>\<open>JSON.parse\<close> (inside the \<^verbatim>\<open>try\<close>)
  throws, \<open>msg\<close> is already the parsed value.
\<close>

definition parseMessage :: "runtime \<Rightarrow> jsval \<Rightarrow> string \<Rightarrow> (exn + jsval) \<times> string list" where
  "parseMessage rt msg root' =
     (if typeof msg \<noteq> ''object''
      then (case toStr rt msg of
              Inl e \<Rightarrow> wrapAndClean rt root' msg
            | Inr t \<Rightarrow>
                (case JSON_parse rt t of
                   None \<Rightarrow> wrapAndClean rt root' msg
                 | Some parsed \<Rightarrow>
                     (if typeof parsed \<noteq> ''object''
                      then (case wrapText rt root' parsed of
                              Inl e \<Rightarrow> wrapAndClean rt root' parsed
                            | Inr w \<Rightarrow>
                                (case JSON_parse rt w of
                                   None \<Rightarrow> wrapAndClean rt root' parsed
                                 | Some m \<Rightarrow> cleanMessage rt m))
                      else cleanMessage rt parsed)))
      else cleanMessage rt msg)"

subsection \<open>The output node: insert and delete\<close>

text \<open>
  \<^verbatim>\<open>insertDocument(cloudant, node, doc, attempts, callback)\<close>: the result is what the
  callback is called with, the backend's state and the calls made. The answer to
  \<^verbatim>\<open>cloudant.db.create\<close> is not looked at.
\<close>

function insertDocument ::
  "'b backend \<Rightarrow> out_node \<Rightarrow> jsval \<Rightarrow> int \<Rightarrow> 'b \<Rightarrow> (cerr option \<times> jsval) \<times> 'b \<times> event list" where
  "insertDocument be node doc attempts s =
     (case be s (DbInsert (database node) doc) of
        ((err, body), s1) \<Rightarrow>
          (if (case err of None \<Rightarrow> False | Some e \<Rightarrow> status_code e = 404) \<and> attempts > 0
           then (case insertDocument be node doc (attempts - 1)
                         (snd (be s1 (DbCreate (database node)))) of
                   (r, s2, evs) \<Rightarrow>
                     (r, s2,
                      Call (DbInsert (database node) doc) # Call (DbCreate (database node)) # evs))
           else ((err, body), s1, [Call (DbInsert (database node) doc)])))"
  by pat_completeness auto
termination
  by (relation "measure (\<lambda>(be, node, doc, attempts, s). nat attempts)") auto

text \<open>
  \<^verbatim>\<open>handleMessage(cloudant, node, msg)\<close>: the exception that leaves it (if any), the
  backend's state, and the events. The message is a plain object.
\<close>

definition handleMessage ::
  "runtime \<Rightarrow> 'b backend \<Rightarrow> out_node \<Rightarrow> jsobject \<Rightarrow> 'b \<Rightarrow> exn option \<times> 'b \<times> event list" where
  "handleMessage rt be node msg s =
     (if operation node = ''insert''
      then (let msg' = (if payonly node then getProp msg ''payload'' else JObj msg);
                root' = (if payonly node then ''payload'' else ''msg'')
            in case parseMessage rt msg' root' of
                 (Inl e, warns) \<Rightarrow> (Some e, s, map NodeWarn warns)
               | (Inr doc, warns) \<Rightarrow>
                   (case insertDocument be node doc MAX_ATTEMPTS s of
                      ((err, body), s', evs) \<Rightarrow>
                        (None, s',
                         map NodeWarn warns @ evs @
                         (case err of
                            None \<Rightarrow> []
                          | Some e \<Rightarrow> [NodeError (''Failed to insert document: '' @ description e)]))))
      else if operation node = ''delete''
      then (case parseMessage rt (jsOr (getProp msg ''payload'') (JObj msg)) [] of
              (Inl e, warns) \<Rightarrow> (Some e, s, map NodeWarn warns)
            | (Inr doc, warns) \<Rightarrow>
                (case inOp ''_rev'' doc of
                   Inl e \<Rightarrow> (Some e, s, map NodeWarn warns)
                 | Inr hasRev \<Rightarrow>
                     (if hasRev \<and> inOp ''_id'' doc = Inr True
                      then (case be s (DbDestroy (database node) (getField doc ''_id'')
                                                 (getField doc ''_rev'')) of
                              ((err, body), s') \<Rightarrow>
                                (None, s',
                                 map NodeWarn warns @
                                 [Call (DbDestroy (database node) (getField doc ''_id'')
                                                  (getField doc ''_rev''))] @
                                 (case err of
                                    None \<Rightarrow> []
                                  | Some e \<Rightarrow>
                                      [NodeError (''Failed to delete document: '' @ description e)])))
                      else (None, s,
                            map NodeWarn warns @
                            [NodeError ''_id and _rev are required to delete a document'']))))
      else (None, s, []))"

subsection \<open>The input node\<close>

text \<open>\<^verbatim>\<open>getDocumentId(payload)\<close>; \<^verbatim>\<open>"_id" in null\<close> throws.\<close>

definition getDocumentId :: "jsval \<Rightarrow> exn + jsval" where
  "getDocumentId payload =
     (if typeof payload = ''object''
      then (case inOp ''_id'' payload of
              Inl e \<Rightarrow> Inl e
            | Inr hasId \<Rightarrow>
                (if hasId \<or> inOp ''id'' payload = Inr True
                 then Inr (jsOr (getField payload ''id'') (getField payload ''_id''))
                 else Inr payload))
      else Inr payload)"

text \<open>The body of the loop of \<^verbatim>\<open>formatSearchQuery\<close>, over the keys in the engine's
  order: \<^verbatim>\<open>queryString += key + ":" + query[key] + " "\<close>.\<close>

fun queryText :: "runtime \<Rightarrow> jsobject \<Rightarrow> string list \<Rightarrow> exn + string" where
  "queryText rt query [] = Inr []"
| "queryText rt query (key # keys) =
     (case toStr rt (getProp query key) of
        Inl e \<Rightarrow> Inl e
      | Inr t \<Rightarrow>
          (case queryText rt query keys of
             Inl e \<Rightarrow> Inl e
           | Inr r \<Rightarrow> Inr (key @ '':'' @ t @ '' '' @ r)))"

text \<open>
  \<^verbatim>\<open>formatSearchQuery(query)\<close>. It is called with the payload when the options, which
  are the payload when that is an object, have no query; an array or an object with a
  replaced prototype in that place is not followed.
\<close>

definition formatSearchQuery :: "runtime \<Rightarrow> jsval \<Rightarrow> exn + jsval" where
  "formatSearchQuery rt query =
     (if typeof query = ''object''
      then (case query of
              JObj kvs \<Rightarrow>
                (if hasProp kvs ''q'' then Inr (getProp kvs ''q'')
                 else (case queryText rt kvs (ownKeys kvs) of
                         Inl e \<Rightarrow> Inl e
                       | Inr t \<Rightarrow> Inr (JStr (trim t))))
            | JArr xs \<Rightarrow> Inl Unmodelled
            | JObjP kvs p \<Rightarrow> Inl Unmodelled
            | _ \<Rightarrow> Inl TypeError)
      else Inr query)"

text \<open>
  The function given to \<^verbatim>\<open>body.rows.map\<close>: \<open>None\<close> is its \<^verbatim>\<open>undefined\<close>, for a
  row whose document's \<^verbatim>\<open>_id\<close> contains \<^verbatim>\<open>_design/\<close>. Reading a property of
  \<^verbatim>\<open>undefined\<close> or \<^verbatim>\<open>null\<close> throws, a primitive has no \<^verbatim>\<open>doc\<close> and no
  \<^verbatim>\<open>_id\<close>, and calling \<^verbatim>\<open>indexOf\<close> on a value that is neither a string nor an
  array throws.
\<close>

definition memberOf :: "jsval \<Rightarrow> string \<Rightarrow> exn + jsval" where
  "memberOf v k =
     (if v = JUndefined \<or> v = JNull then Inl TypeError
      else if isObject v then Inr (getField v k)
      else Inr JUndefined)"

definition rowDoc :: "jsval \<Rightarrow> exn + jsval option" where
  "rowDoc el =
     (case memberOf el ''doc'' of
        Inl e \<Rightarrow> Inl e
      | Inr doc \<Rightarrow>
          (case memberOf doc ''_id'' of
             Inl e \<Rightarrow> Inl e
           | Inr i \<Rightarrow>
               (case i of
                  JStr t \<Rightarrow> Inr (if occursIn ''_design/'' t then None else Some doc)
                | JArr xs \<Rightarrow> Inr (if JStr ''_design/'' \<in> set xs then None else Some doc)
                | JObjP kvs p \<Rightarrow> Inl Unmodelled
                | _ \<Rightarrow> Inl TypeError)))"

text \<open>\<^verbatim>\<open>rows.map(...).filter(...)\<close>: the first row that throws ends it.\<close>

fun rowDocs :: "jsval list \<Rightarrow> exn + jsval list" where
  "rowDocs [] = Inr []"
| "rowDocs (el # els) =
     (case rowDoc el of
        Inl e \<Rightarrow> Inl e
      | Inr d \<Rightarrow>
          (case rowDocs els of
             Inl e \<Rightarrow> Inl e
           | Inr ds \<Rightarrow> Inr ((case d of None \<Rightarrow> [] | Some x \<Rightarrow> [x]) @ ds)))"

text \<open>The text of the warning, built from \<^verbatim>\<open>node.inputId\<close> and \<^verbatim>\<open>node.database\<close>
  as they are when it is built.\<close>

definition notFoundText :: "runtime \<Rightarrow> in_node \<Rightarrow> exn + string" where
  "notFoundText rt node =
     (case toStr rt (inputId node) of
        Inl e \<Rightarrow> Inl e
      | Inr t \<Rightarrow>
          Inr (''Document '' @ [CHR 0x27] @ t @ [CHR 0x27] @
               '' not found in database '' @ [CHR 0x27] @ database node @ [CHR 0x27] @ ''.''))"

text \<open>
  \<^verbatim>\<open>sendDocumentOnPayload(err, body, msg)\<close>: the exception that leaves it (if any) and
  the events. The node is the node as it is when the function runs.
\<close>

definition sendDocumentOnPayload ::
  "runtime \<Rightarrow> in_node \<Rightarrow> cerr option \<Rightarrow> jsval \<Rightarrow> jsobject \<Rightarrow> exn option \<times> event list" where
  "sendDocumentOnPayload rt node err body msg =
     (case err of
        None \<Rightarrow>
          (let msg1 = AList.update ''cloudant'' body msg
           in case inOp ''rows'' body of
                Inl e \<Rightarrow> (Some e, [])
              | Inr hasRows \<Rightarrow>
                  (if hasRows
                   then (case getField body ''rows'' of
                           JArr rows \<Rightarrow>
                             (case rowDocs rows of
                                Inl e \<Rightarrow> (Some e, [])
                              | Inr docs \<Rightarrow>
                                  (None,
                                   [NodeSend (JObj (AList.update ''payload'' (JArr docs) msg1))]))
                         | JObjP kvs p \<Rightarrow> (Some Unmodelled, [])
                         | _ \<Rightarrow> (Some TypeError, []))
                   else (None, [NodeSend (JObj (AList.update ''payload'' body msg1))])))
      | Some e \<Rightarrow>
          (let msg1 = AList.update ''payload'' JNull msg
           in if description e = ''missing''
              then (case notFoundText rt node of
                      Inl x \<Rightarrow> (Some x, [])
                    | Inr t \<Rightarrow> (None, [NodeWarn t, NodeSend (JObj msg1)]))
              else (None, [NodeError (description e), NodeSend (JObj msg1)])))"

text \<open>
  The options of a search, as lines 299 to 305 leave them. The object is the payload
  itself, so the payload changes with it; nothing reads the payload again before
  \<^verbatim>\<open>sendDocumentOnPayload\<close> replaces it.
\<close>

definition searchOptions :: "runtime \<Rightarrow> jsval \<Rightarrow> jsobject \<Rightarrow> exn + jsobject" where
  "searchOptions rt payload options =
     (case (if truthy (jsOr (getProp options ''query'') (getProp options ''q''))
            then Inr (jsOr (getProp options ''query'') (getProp options ''q''))
            else formatSearchQuery rt payload) of
        Inl e \<Rightarrow> Inl e
      | Inr query \<Rightarrow>
          (let o1 = AList.update ''query'' query options;
               o2 = AList.update ''include_docs'' (jsOr (getProp o1 ''include_docs'') (JBool True)) o1;
               o3 = AList.update ''limit'' (jsOr (getProp o2 ''limit'') (JNum 200)) o2;
               o4 = (if truthy (getProp o3 ''sort'')
                     then AList.update ''sort'' (JSON_stringify rt (getProp o3 ''sort'')) o3
                     else o3)
           in Inr o4))"

text \<open>The options of a listing, as line 312 leaves them.\<close>

definition listOptions :: "jsobject \<Rightarrow> jsobject" where
  "listOptions options =
     AList.update ''include_docs'' (jsOr (getProp options ''include_docs'') (JBool True)) options"

text \<open>
  The options object of line 288: the payload when \<^verbatim>\<open>typeof\<close> says object, a new
  empty object otherwise. Reading a property of \<^verbatim>\<open>null\<close> throws; an array or an
  object with a replaced prototype as the options object is not followed.
\<close>

definition optionsOf :: "jsval \<Rightarrow> exn + jsobject" where
  "optionsOf payload =
     (if typeof payload = ''object''
      then (case payload of
              JObj kvs \<Rightarrow> Inr kvs
            | JArr xs \<Rightarrow> Inl Unmodelled
            | JObjP kvs p \<Rightarrow> Inl Unmodelled
            | _ \<Rightarrow> Inl TypeError)
      else Inr [])"

text \<open>
  The handler of \<^verbatim>\<open>node.on("input", ...)\<close> of the input node. It returns when it
  has made its one call to the database client; the callback it gives with the call
  runs later. The result is the exception that leaves the handler (if any), the node
  (whose \<^verbatim>\<open>inputId\<close> the first branch sets), and the call made with its callback. A
  callback is given, when it runs, the node as it is then and the answer; it holds the
  message of its handler.
\<close>

type_synonym callback = "in_node \<Rightarrow> cerr option \<Rightarrow> jsval \<Rightarrow> exn option \<times> event list"

definition onInput ::
  "runtime \<Rightarrow> in_node \<Rightarrow> jsobject \<Rightarrow> exn option \<times> in_node \<times> (call \<times> callback) option" where
  "onInput rt node msg =
     (if search node = ''_id_''
      then (case getDocumentId (getProp msg ''payload'') of
              Inl e \<Rightarrow> (Some e, node, None)
            | Inr i \<Rightarrow>
                (None, node\<lparr>inputId := i\<rparr>,
                 Some (DbGet (database node) i,
                       \<lambda>nd err body. sendDocumentOnPayload rt nd err body msg)))
      else if search node = ''_idx_''
      then (case optionsOf (getProp msg ''payload'') of
              Inl e \<Rightarrow> (Some e, node, None)
            | Inr options \<Rightarrow>
                (case searchOptions rt (getProp msg ''payload'') options of
                   Inl e \<Rightarrow> (Some e, node, None)
                 | Inr opts \<Rightarrow>
                     (None, node,
                      Some (DbSearch (database node) (design node) (index node) (JObj opts),
                            \<lambda>nd err body. sendDocumentOnPayload rt nd err body msg))))
      else if search node = ''_all_''
      then (case optionsOf (getProp msg ''payload'') of
              Inl e \<Rightarrow> (Some e, node, None)
            | Inr options \<Rightarrow>
                (None, node,
                 Some (DbList (database node) (JObj (listOptions options)),
                       \<lambda>nd err body. sendDocumentOnPayload rt nd err body msg)))
      else (None, node, None))"

text \<open>
  The input node over time. Its state is the node and the calls that have not been
  answered yet, each with its callback, oldest first. A step is either a message that
  arrives, whose handler runs to its end, or the answer to one of the open calls (named
  by its place in the list), whose callback runs to its end. Several calls can be open
  at once, and they can be answered in any order. The handler mutates the payload object
  and the database client hands the callback to the event loop; neither is an event.
\<close>

datatype step =
    Receive jsobject
  | Answer nat "cerr option" jsval

type_synonym in_state = "in_node \<times> (call \<times> callback) list"

fun inStep :: "runtime \<Rightarrow> in_state \<Rightarrow> step \<Rightarrow> exn option \<times> in_state \<times> event list" where
  "inStep rt (node, open_calls) (Receive msg) =
     (case onInput rt node msg of
        (x, node', None) \<Rightarrow> (x, (node', open_calls), [])
      | (x, node', Some (c, cb)) \<Rightarrow> (x, (node', open_calls @ [(c, cb)]), [Call c]))"
| "inStep rt (node, open_calls) (Answer k err body) =
     (if k < length open_calls
      then (case snd (open_calls ! k) node err body of
              (x, evs) \<Rightarrow> (x, (node, take k open_calls @ drop (Suc k) open_calls), evs))
      else (None, (node, open_calls), []))"

text \<open>A run of steps; what the host does after an exception has left a handler or a
  callback is not followed, the run ends there.\<close>

fun inRun :: "runtime \<Rightarrow> in_state \<Rightarrow> step list \<Rightarrow> exn option \<times> in_state \<times> event list" where
  "inRun rt st [] = (None, st, [])"
| "inRun rt st (x # xs) =
     (case inStep rt st x of
        (Some e, st', evs) \<Rightarrow> (Some e, st', evs)
      | (None, st', evs) \<Rightarrow>
          (case inRun rt st' xs of (r, st'', evs') \<Rightarrow> (r, st'', evs @ evs')))"

subsection \<open>Inputs for the closed examples\<close>

text \<open>
  A runtime, two backends and two nodes for the examples evaluated below. The runtime's
  \<^verbatim>\<open>JSON.parse\<close> is given on the one text \<^verbatim>\<open>null\<close>, which it parses to
  \<^verbatim>\<open>null\<close>; no example reaches another call of it, or any call of the other three
  runtime functions. \<open>failingBackend\<close> answers every call with the same error,
  \<open>okBackend\<close> answers every call with the same body; neither has a state.
\<close>

definition exampleRuntime :: runtime where
  "exampleRuntime =
     \<lparr>NumberToString = (\<lambda>r. []), StringToInteger = (\<lambda>s. 0),
      JSON_parse = (\<lambda>s. if s = ''null'' then Some JNull else None),
      JSON_stringify = (\<lambda>v. JUndefined)\<rparr>"

definition failingBackend :: "int \<Rightarrow> string \<Rightarrow> unit backend" where
  "failingBackend code descr = (\<lambda>s c. ((Some \<lparr>status_code = code, description = descr\<rparr>, JUndefined), s))"

definition okBackend :: "jsval \<Rightarrow> unit backend" where
  "okBackend body = (\<lambda>s c. ((None, body), s))"

definition exampleOutNode :: "string \<Rightarrow> out_node" where
  "exampleOutNode op = \<lparr>database = ''orders'', operation = op, payonly = True\<rparr>"

definition exampleInNode :: "string \<Rightarrow> in_node" where
  "exampleInNode mode =
     \<lparr>database = ''orders'', search = mode, design = ''ddoc'', index = ''byName'',
      inputId = JStr []\<rparr>"

section \<open>Properties\<close>

declare insertDocument.simps [simp del]

subsection \<open>Objects\<close>

lemma getProp_update: "getProp (AList.update k v m) k' = (if k' = k then v else getProp m k')"
  by (simp add: getProp_def update_conv')



lemma getProp_absent: "\<not> hasProp m k \<Longrightarrow> getProp m k = JUndefined"
  by (simp add: hasProp_def getProp_def)


lemma inOp_JObj: "inOp k (JObj kvs) = Inr (hasProp kvs k)"
  by (simp add: inOp_def hasProp_def)

lemma getField_JObj: "getField (JObj kvs) k = getProp kvs k"
  by (simp add: getField_def getProp_def)

text \<open>The engine's order lists every field once.\<close>

lemma set_ownKeys: "set (ownKeys kvs) = fst ` set kvs"
  by (auto simp: ownKeys_def)



lemma ownKeys_plain: "list_all (\<lambda>k. \<not> isArrayIndex k) (map fst kvs) \<Longrightarrow> ownKeys kvs = map fst kvs"
  by (simp add: ownKeys_def list_all_iff filter_empty_conv filter_id_conv)

subsection \<open>Insert: the retry budget\<close>

text \<open>
  Against a backend that answers every insert with status 404, \<open>k\<close> attempts left
  give \<open>k\<close> rounds of insert and create and one last insert, whose error goes to the
  callback.
\<close>

lemma insertDocument_missing:
  assumes miss:
    "\<And>s. \<exists>e b s'. be s (DbInsert (database node) doc) = ((Some e, b), s') \<and> status_code e = 404"
  shows "\<exists>e b s'. insertDocument be node doc (int k) s =
           ((Some e, b), s',
            concat (replicate k [Call (DbInsert (database node) doc), Call (DbCreate (database node))])
              @ [Call (DbInsert (database node) doc)])
         \<and> status_code e = 404"
proof (induction k arbitrary: s)
  case 0
  from miss [of s] obtain e b s' where
    "be s (DbInsert (database node) doc) = ((Some e, b), s')" "status_code e = 404" by blast
  then show ?case by (subst insertDocument.simps) simp
next
  case (Suc k)
  from miss [of s] obtain e b s1 where
    a: "be s (DbInsert (database node) doc) = ((Some e, b), s1)" "status_code e = 404" by blast
  from Suc.IH [of "snd (be s1 (DbCreate (database node)))"] obtain e' b' s' where
    r: "insertDocument be node doc (int k) (snd (be s1 (DbCreate (database node)))) =
         ((Some e', b'), s',
          concat (replicate k [Call (DbInsert (database node) doc), Call (DbCreate (database node))])
            @ [Call (DbInsert (database node) doc)])" "status_code e' = 404" by blast
  have "int (Suc k) - 1 = int k" by simp
  with a r show ?case by (subst insertDocument.simps) simp
qed

text \<open>
  An insert that is answered without an error, or with an error whose status is not 404,
  is the only call: the callback gets that answer, whatever the attempts left.
\<close>

lemma insertDocument_not_missing:
  assumes "case fst (fst (be s (DbInsert (database node) doc))) of
             None \<Rightarrow> True | Some e \<Rightarrow> status_code e \<noteq> 404"
  shows "insertDocument be node doc attempts s =
           (fst (be s (DbInsert (database node) doc)), snd (be s (DbInsert (database node) doc)),
            [Call (DbInsert (database node) doc)])"
  using assms by (subst insertDocument.simps) (auto split: prod.splits option.splits)

text \<open>
  Whatever the backend answers, an insert that starts with \<open>k\<close> attempts left creates
  the database at most \<open>k\<close> times and calls insert at most \<open>k + 1\<close> times.
\<close>

lemma insertDocument_bounded:
  "length (filter (\<lambda>ev. ev = Call (DbCreate (database node)))
             (snd (snd (insertDocument be node doc (int k) s)))) \<le> k
   \<and> length (filter (\<lambda>ev. ev = Call (DbInsert (database node) doc))
             (snd (snd (insertDocument be node doc (int k) s)))) \<le> Suc k"
proof (induction k arbitrary: s)
  case 0
  show ?case by (subst insertDocument.simps, subst (2) insertDocument.simps)
      (simp split: prod.splits)
next
  case (Suc k)
  have eq: "int (Suc k) - 1 = int k" by simp
  show ?case
    using Suc.IH [of "snd (be (snd (be s (DbInsert (database node) doc))) (DbCreate (database node)))"]
    by (subst insertDocument.simps, subst (2) insertDocument.simps)
      (auto simp: eq split: prod.splits)
qed

text \<open>
  C1. An insert that starts with the budget \<open>MAX_ATTEMPTS\<close> of 3, against a database
  that the backend reports missing (status 404) at every insert, makes four insert calls
  with a create call after each of the first three, and then gives the callback the
  404 error. Against a database that exists at the first attempt, which is to say that
  the first insert is answered without an error or with an error other than the 404 of
  a missing database, that insert is the only call made and no create is issued.
\<close>

theorem insertDocument_retry_budget:
  "((\<forall>s. \<exists>e b s'. be s (DbInsert (database node) doc) = ((Some e, b), s') \<and> status_code e = 404)
      \<longrightarrow> snd (snd (insertDocument be node doc MAX_ATTEMPTS s)) =
                 [Call (DbInsert (database node) doc), Call (DbCreate (database node)),
                  Call (DbInsert (database node) doc), Call (DbCreate (database node)),
                  Call (DbInsert (database node) doc), Call (DbCreate (database node)),
                  Call (DbInsert (database node) doc)]
          \<and> map_option status_code (fst (fst (insertDocument be node doc MAX_ATTEMPTS s))) = Some 404)
   \<and> ((case fst (fst (be s (DbInsert (database node) doc))) of
          None \<Rightarrow> True | Some e \<Rightarrow> status_code e \<noteq> 404)
      \<longrightarrow> snd (snd (insertDocument be node doc MAX_ATTEMPTS s)) = [Call (DbInsert (database node) doc)]
          \<and> fst (insertDocument be node doc MAX_ATTEMPTS s) = fst (be s (DbInsert (database node) doc)))"
proof (intro conjI impI)
  assume "\<forall>s. \<exists>e b s'. be s (DbInsert (database node) doc) = ((Some e, b), s') \<and> status_code e = 404"
  then have "\<exists>e b s'. insertDocument be node doc (int 3) s =
           ((Some e, b), s',
            concat (replicate 3 [Call (DbInsert (database node) doc), Call (DbCreate (database node))])
              @ [Call (DbInsert (database node) doc)])
         \<and> status_code e = 404"
    by (intro insertDocument_missing) blast
  then obtain e b s' where r: "insertDocument be node doc MAX_ATTEMPTS s =
           ((Some e, b), s',
            concat (replicate 3 [Call (DbInsert (database node) doc), Call (DbCreate (database node))])
              @ [Call (DbInsert (database node) doc)])" "status_code e = 404"
    by (auto simp: MAX_ATTEMPTS_def)
  from r show "snd (snd (insertDocument be node doc MAX_ATTEMPTS s)) =
                 [Call (DbInsert (database node) doc), Call (DbCreate (database node)),
                  Call (DbInsert (database node) doc), Call (DbCreate (database node)),
                  Call (DbInsert (database node) doc), Call (DbCreate (database node)),
                  Call (DbInsert (database node) doc)]"
    by (simp add: numeral_3_eq_3)
  from r show "map_option status_code (fst (fst (insertDocument be node doc MAX_ATTEMPTS s))) = Some 404"
    by simp
next
  assume a: "case fst (fst (be s (DbInsert (database node) doc))) of
               None \<Rightarrow> True | Some e \<Rightarrow> status_code e \<noteq> 404"
  note r = insertDocument_not_missing [of be s node doc MAX_ATTEMPTS, OF a]
  show "snd (snd (insertDocument be node doc MAX_ATTEMPTS s)) = [Call (DbInsert (database node) doc)]"
    by (simp add: r)
  show "fst (insertDocument be node doc MAX_ATTEMPTS s) = fst (be s (DbInsert (database node) doc))"
    by (simp add: r)
qed

theorem insertDocument_retry_budget_witness:
  "snd (snd (insertDocument (failingBackend 404 ''no_db_file'') (exampleOutNode ''insert'')
                 (JObj [(''name'', JStr ''x'')]) MAX_ATTEMPTS ())) =
      [Call (DbInsert ''orders'' (JObj [(''name'', JStr ''x'')])), Call (DbCreate ''orders''),
       Call (DbInsert ''orders'' (JObj [(''name'', JStr ''x'')])), Call (DbCreate ''orders''),
       Call (DbInsert ''orders'' (JObj [(''name'', JStr ''x'')])), Call (DbCreate ''orders''),
       Call (DbInsert ''orders'' (JObj [(''name'', JStr ''x'')]))]
   \<and> map_option status_code
        (fst (fst (insertDocument (failingBackend 404 ''no_db_file'') (exampleOutNode ''insert'')
                     (JObj [(''name'', JStr ''x'')]) MAX_ATTEMPTS ()))) = Some 404
   \<and> snd (snd (insertDocument (okBackend (JObj [(''ok'', JBool True)])) (exampleOutNode ''insert'')
                 (JObj [(''name'', JStr ''x'')]) MAX_ATTEMPTS ())) =
       [Call (DbInsert ''orders'' (JObj [(''name'', JStr ''x'')]))]
   \<and> snd (snd (insertDocument (failingBackend 409 ''conflict'') (exampleOutNode ''insert'')
                 (JObj [(''name'', JStr ''x'')]) MAX_ATTEMPTS ())) =
       [Call (DbInsert ''orders'' (JObj [(''name'', JStr ''x'')]))]"
proof -
  have miss: "\<forall>s. \<exists>e b s'. failingBackend 404 ''no_db_file'' s
                  (DbInsert (database (exampleOutNode ''insert'')) (JObj [(''name'', JStr ''x'')])) =
                ((Some e, b), s') \<and> status_code e = 404"
    by (simp add: failingBackend_def)
  have ok: "case fst (fst (okBackend (JObj [(''ok'', JBool True)]) ()
                  (DbInsert (database (exampleOutNode ''insert'')) (JObj [(''name'', JStr ''x'')])))) of
              None \<Rightarrow> True | Some e \<Rightarrow> status_code e \<noteq> 404"
    by (simp add: okBackend_def)
  have other: "case fst (fst (failingBackend 409 ''conflict'' ()
                  (DbInsert (database (exampleOutNode ''insert'')) (JObj [(''name'', JStr ''x'')])))) of
              None \<Rightarrow> True | Some e \<Rightarrow> status_code e \<noteq> 404"
    by (simp add: failingBackend_def)
  have db: "database (exampleOutNode ''insert'') = ''orders''"
    by (simp add: exampleOutNode_def)
  show ?thesis
    using miss ok other
      insertDocument_retry_budget [of "failingBackend 404 ''no_db_file''" "exampleOutNode ''insert''"
        "JObj [(''name'', JStr ''x'')]" "()"]
      insertDocument_retry_budget [of "okBackend (JObj [(''ok'', JBool True)])" "exampleOutNode ''insert''"
        "JObj [(''name'', JStr ''x'')]" "()"]
      insertDocument_retry_budget [of "failingBackend 409 ''conflict''" "exampleOutNode ''insert''"
        "JObj [(''name'', JStr ''x'')]" "()"]
    by (simp only: db) blast
qed

text \<open>
  The callback of \<^verbatim>\<open>handleMessage\<close> reports the error that ends an insert, after the
  calls made for it.
\<close>

lemma handleMessage_insert_reports:
  "operation node = ''insert'' \<Longrightarrow>
   parseMessage rt (if payonly node then getProp msg ''payload'' else JObj msg)
     (if payonly node then ''payload'' else ''msg'') = (Inr doc, warns) \<Longrightarrow>
   insertDocument be node doc MAX_ATTEMPTS s = ((Some e, body), s', evs) \<Longrightarrow>
   handleMessage rt be node msg s =
     (None, s',
      map NodeWarn warns @ evs @ [NodeError (''Failed to insert document: '' @ description e)])"
  by (simp add: handleMessage_def Let_def)

text \<open>
  The document \<^verbatim>\<open>{"_secret": "x"}\<close> is inserted as \<^verbatim>\<open>{"secret": "x"}\<close>, after one
  rename warning and with one backend call, when the database exists.
\<close>

lemma handleMessage_insert_secret:
  "handleMessage exampleRuntime (okBackend (JObj [(''ok'', JBool True)])) (exampleOutNode ''insert'')
       [(''payload'', JObj [(''_secret'', JStr ''x'')])] () =
     (None, (),
      [NodeWarn (''Property '' @ [CHR 0x27] @ ''_secret'' @ [CHR 0x27] @ '' renamed to '' @
                 [CHR 0x27] @ ''secret'' @ [CHR 0x27] @ ''.''),
       Call (DbInsert ''orders'' (JObj [(''secret'', JStr ''x'')]))])"
  by code_simp

subsection \<open>Cleaning a message\<close>

text \<open>
  C2. \<^verbatim>\<open>cleanMessage\<close> takes one underscore off an invalid name and never looks at
  the new name: the object with the one field \<^verbatim>\<open>__foo\<close> comes out with the one field
  \<^verbatim>\<open>_foo\<close>, which starts with the underscore and is not one of the allowed words.
\<close>

theorem cleanMessage_double_underscore:
  "parseMessage rt (JObj [(''__foo'', JNum 1)]) fallback =
     (Inr (JObj [(''_foo'', JNum 1)]), [renamedText ''__foo'' ''_foo''])
   \<and> isFieldNameValid ''_foo'' = False"
  by code_simp

text \<open>
  The end index of the new name is \<^verbatim>\<open>msg.length\<close>, a field of the document: with
  a field \<^verbatim>\<open>length\<close> of 0 the two indices are swapped and the new name of \<^verbatim>\<open>_foo\<close>
  is the underscore alone.
\<close>

lemma cleanMessage_length_field:
  "cleanMessage rt (JObj [(''length'', JNum 0), (''_foo'', JNum 1)]) =
     (Inr (JObj [(''length'', JNum 0), (''_'', JNum 1)]), [renamedText ''_foo'' ''_''])"
  by code_simp

text \<open>
  A name that loses its underscore to become \<^verbatim>\<open>__proto__\<close> is not a new field:
  the assignment reaches the setter of \<^verbatim>\<open>Object.prototype\<close>, and the value becomes
  the prototype. With \<^verbatim>\<open>null\<close> there, the next key finds no \<^verbatim>\<open>hasOwnProperty\<close>
  and the loop throws after one warning; with an object there, the fields of that object
  are read through the document.
\<close>

lemma cleanMessage_proto_null:
  "cleanMessage rt (JObj [(''___proto__'', JNull), (''_y'', JNum 2)]) =
     (Inl TypeError, [renamedText ''___proto__'' ''__proto__''])"
  by code_simp

lemma cleanMessage_proto_object:
  "cleanMessage rt (JObj [(''_id'', JStr ''a''), (''___proto__'', JObj [(''_rev'', JStr ''1-x'')])]) =
     (Inr (JObjP [(''_id'', JStr ''a'')] (JObj [(''_rev'', JStr ''1-x'')])),
      [renamedText ''___proto__'' ''__proto__''])"
  by code_simp

text \<open>
  A field whose new name is an array index is listed first by the engine, wherever it
  was created.
\<close>

lemma ownKeys_index_first:
  "ownKeys [(''b'', JNum 1), (''7'', JNum 2), (''a'', JNum 3), (''10'', JNum 4), (''2'', JNum 5)] =
     [''2'', ''7'', ''10'', ''b'', ''a'']"
  by (simp add: ownKeys_def isArrayIndex_def isDigit_def indexValue_def)






text \<open>
  A mapping whose field names are all valid, and which does not hide
  \<^verbatim>\<open>hasOwnProperty\<close>, comes back as it is, with no warning.
\<close>

lemma cleanKeys_valid:
  "list_all isFieldNameValid keys \<Longrightarrow> \<not> hasProp own ''hasOwnProperty'' \<Longrightarrow>
   cleanKeys rt keys own None w = (None, JObj own, w)"
  by (induction keys) (simp_all add: objectOf_def hasOwnPropertyIsMethod_def hasProp_def)

lemma cleanMessage_valid:
  "list_all isFieldNameValid (map fst kvs) \<Longrightarrow> \<not> hasProp kvs ''hasOwnProperty'' \<Longrightarrow>
   cleanMessage rt (JObj kvs) = (Inr (JObj kvs), [])"
  by (simp add: cleanKeys_valid list_all_iff set_ownKeys)

subsection \<open>Delete\<close>


text \<open>
  C6. The document a delete extracts can be \<^verbatim>\<open>null\<close>: the payload text
  \<^verbatim>\<open>null\<close> parses to it, \<^verbatim>\<open>typeof\<close> calls it an object, and
  \<^verbatim>\<open>parseMessage\<close> returns it as it is. It has neither \<^verbatim>\<open>_id\<close> nor \<^verbatim>\<open>_rev\<close>,
  and the test \<^verbatim>\<open>"_rev" in doc\<close> throws: the handler ends with a TypeError, without
  the local error and without a backend call.
\<close>

theorem delete_null_document_throws:
  "parseMessage exampleRuntime (JStr ''null'') [] = (Inr JNull, [])
   \<and> handleMessage exampleRuntime (okBackend JUndefined) (exampleOutNode ''delete'')
       [(''payload'', JStr ''null'')] () = (Some TypeError, (), [])"
  by code_simp

text \<open>
  A revision that the document has only through its prototype counts for the test and
  for the call: the payload \<^verbatim>\<open>{"_id": "a", "___proto__": {"_rev": "1-x"}}\<close> is
  deleted.
\<close>

lemma handleMessage_delete_inherited_rev:
  "handleMessage exampleRuntime (okBackend JUndefined) (exampleOutNode ''delete'')
       [(''payload'', JObj [(''_id'', JStr ''a''), (''___proto__'', JObj [(''_rev'', JStr ''1-x'')])])] () =
     (None, (),
      [NodeWarn (renamedText ''___proto__'' ''__proto__''),
       Call (DbDestroy ''orders'' (JStr ''a'') (JStr ''1-x''))])"
  by code_simp




text \<open>
  The renaming decides the test: the payload \<^verbatim>\<open>{"__id": "a", "_rev": "1-x"}\<close> has
  no \<^verbatim>\<open>_id\<close>, the document made from it has one, and the delete is issued.
\<close>

lemma handleMessage_delete_renamed_id:
  "handleMessage exampleRuntime (okBackend JUndefined) (exampleOutNode ''delete'')
       [(''payload'', JObj [(''__id'', JStr ''a''), (''_rev'', JStr ''1-x'')])] () =
     (None, (),
      [NodeWarn (renamedText ''__id'' ''_id''),
       Call (DbDestroy ''orders'' (JStr ''a'') (JStr ''1-x''))])"
  by code_simp

subsection \<open>Reading: the callback\<close>


lemma inStep_Receive_byId:
  "search node = ''_id_'' \<Longrightarrow> getDocumentId (getProp msg ''payload'') = Inr i \<Longrightarrow>
   inStep rt (node, open_calls) (Receive msg) =
     (None,
      (node\<lparr>inputId := i\<rparr>,
       open_calls @ [(DbGet (database node) i, \<lambda>nd err body. sendDocumentOnPayload rt nd err body msg)]),
      [Call (DbGet (database node) i)])"
  by (simp add: onInput_def)

text \<open>
  The part of C3 that holds. In the mode \<^verbatim>\<open>_id_\<close>, when the get is answered with an
  error before another message arrives: for \<^verbatim>\<open>missing\<close> the node gives a warning,
  whose text holds the identifier it asked for and the database name, and no error;
  for any other description an error and no warning. Either way the message is then
  sent with the payload \<^verbatim>\<open>null\<close>.
\<close>

lemma byId_error_answered_at_once:
  "search node = ''_id_'' \<Longrightarrow> getDocumentId (getProp msg ''payload'') = Inr i \<Longrightarrow>
   toStr rt i = Inr t \<Longrightarrow>
   inRun rt (node, []) [Receive msg, Answer 0 (Some e) body] =
     (None, (node\<lparr>inputId := i\<rparr>, []),
      [Call (DbGet (database node) i),
       if description e = ''missing''
       then NodeWarn (''Document '' @ [CHR 0x27] @ t @ [CHR 0x27] @
                      '' not found in database '' @ [CHR 0x27] @ database node @ [CHR 0x27] @ ''.'')
       else NodeError (description e),
       NodeSend (JObj (AList.update ''payload'' JNull msg))])"
  by (simp add: onInput_def sendDocumentOnPayload_def notFoundText_def)

text \<open>
  C3. The identifier in the warning is not the one the answered get asked for: the
  callback reads \<^verbatim>\<open>node.inputId\<close>, which every handler of the node overwrites. Two
  messages arrive, for \<^verbatim>\<open>doc1\<close> and for \<^verbatim>\<open>doc2\<close>, and then the first get is
  answered with \<^verbatim>\<open>missing\<close>: the first message is sent with the payload
  \<^verbatim>\<open>null\<close>, after a warning that names \<^verbatim>\<open>doc2\<close>.
\<close>

theorem byId_warning_names_later_request:
  "snd (snd (inRun exampleRuntime (exampleInNode ''_id_'', [])
       [Receive [(''payload'', JStr ''doc1''), (''topic'', JStr ''first'')],
        Receive [(''payload'', JStr ''doc2''), (''topic'', JStr ''second'')],
        Answer 0 (Some \<lparr>status_code = 404, description = ''missing''\<rparr>) JUndefined])) =
     [Call (DbGet ''orders'' (JStr ''doc1'')),
      Call (DbGet ''orders'' (JStr ''doc2'')),
      NodeWarn (''Document '' @ [CHR 0x27] @ ''doc2'' @ [CHR 0x27] @
                '' not found in database '' @ [CHR 0x27] @ ''orders'' @ [CHR 0x27] @ ''.''),
      NodeSend (JObj [(''payload'', JNull), (''topic'', JStr ''first'')])]"
  by code_simp

subsection \<open>The identifier of a read\<close>

text \<open>
  C10. For a payload that is a mapping with an \<^verbatim>\<open>id\<close> field, the identifier is the
  value of \<^verbatim>\<open>id\<close> when that is truthy; when it is falsy (the empty string, 0) the
  identifier is the value of \<^verbatim>\<open>_id\<close>, and \<^verbatim>\<open>undefined\<close>, not the payload, when the
  mapping has no \<^verbatim>\<open>_id\<close>.
\<close>

theorem getDocumentId_prefers_id:
  "hasProp kvs ''id'' \<Longrightarrow>
   getDocumentId (JObj kvs) =
     Inr (if truthy (getProp kvs ''id'') then getProp kvs ''id''
          else if hasProp kvs ''_id'' then getProp kvs ''_id'' else JUndefined)"
  by (simp add: getDocumentId_def inOp_JObj getField_JObj jsOr_def getProp_absent)

theorem getDocumentId_prefers_id_witness:
  "getDocumentId (JObj [(''id'', JStr ''a''), (''_id'', JStr ''b'')]) = Inr (JStr ''a'')
   \<and> getDocumentId (JObj [(''id'', JStr []), (''_id'', JStr ''b'')]) = Inr (JStr ''b'')
   \<and> getDocumentId (JObj [(''id'', JNum 0)]) = Inr JUndefined"
  using getDocumentId_prefers_id [of "[(''id'', JStr ''a''), (''_id'', JStr ''b'')]"]
    getDocumentId_prefers_id [of "[(''id'', JStr []), (''_id'', JStr ''b'')]"]
    getDocumentId_prefers_id [of "[(''id'', JNum 0)]"]
  by (simp add: hasProp_def getProp_def)

subsection \<open>Reading: errors\<close>




subsection \<open>Reading by index: the options\<close>

text \<open>
  C8, as the code has it. The defaults stand in for a value that is falsy, not only for
  one that is unset: the one call of the handler is the search, with the caller's
  \<^verbatim>\<open>include_docs\<close> and \<^verbatim>\<open>limit\<close> when these are truthy and with \<^verbatim>\<open>true\<close> and
  200 otherwise, and a sort that is truthy is replaced by what \<^verbatim>\<open>JSON.stringify\<close>
  gives for it.
\<close>

theorem search_defaults_when_falsy:
  "search node = ''_idx_'' \<Longrightarrow> getProp msg ''payload'' = JObj options \<Longrightarrow>
   searchOptions rt (JObj options) options = Inr opts \<Longrightarrow>
   snd (snd (inStep rt (node, open_calls) (Receive msg))) =
     [Call (DbSearch (database node) (design node) (index node) (JObj opts))]
   \<and> getProp opts ''include_docs'' =
       (if truthy (getProp options ''include_docs'') then getProp options ''include_docs''
        else JBool True)
   \<and> getProp opts ''limit'' =
       (if truthy (getProp options ''limit'') then getProp options ''limit'' else JNum 200)
   \<and> getProp opts ''sort'' =
       (if truthy (getProp options ''sort'') then JSON_stringify rt (getProp options ''sort'')
        else getProp options ''sort'')"
  by (auto simp: onInput_def optionsOf_def searchOptions_def getProp_update jsOr_def Let_def
      split: sum.splits prod.splits if_splits)

theorem search_defaults_when_falsy_witness:
  "snd (snd (inStep exampleRuntime (exampleInNode ''_idx_'', [])
       (Receive [(''payload'', JObj [(''q'', JStr ''name:a''), (''limit'', JNum 10)])]))) =
     [Call (DbSearch ''orders'' ''ddoc'' ''byName''
            (JObj [(''q'', JStr ''name:a''), (''limit'', JNum 10), (''query'', JStr ''name:a''),
                   (''include_docs'', JBool True)]))]
   \<and> getProp [(''q'', JStr ''name:a''), (''limit'', JNum 10), (''query'', JStr ''name:a''),
               (''include_docs'', JBool True)] ''limit'' = JNum 10"
proof -
  have m: "search (exampleInNode ''_idx_'') = ''_idx_''"
    by (simp add: exampleInNode_def)
  have pl: "getProp [(''payload'', JObj [(''q'', JStr ''name:a''), (''limit'', JNum 10)])] ''payload'' =
              JObj [(''q'', JStr ''name:a''), (''limit'', JNum 10)]"
    by (simp add: getProp_def)
  have so: "searchOptions exampleRuntime (JObj [(''q'', JStr ''name:a''), (''limit'', JNum 10)])
              [(''q'', JStr ''name:a''), (''limit'', JNum 10)] =
            Inr [(''q'', JStr ''name:a''), (''limit'', JNum 10), (''query'', JStr ''name:a''),
                 (''include_docs'', JBool True)]"
    by (simp add: searchOptions_def jsOr_def getProp_def Let_def)
  note t = search_defaults_when_falsy [OF m pl so, of "[]"]
  from t have a: "snd (snd (inStep exampleRuntime (exampleInNode ''_idx_'', [])
       (Receive [(''payload'', JObj [(''q'', JStr ''name:a''), (''limit'', JNum 10)])]))) =
     [Call (DbSearch (database (exampleInNode ''_idx_'')) (design (exampleInNode ''_idx_''))
              (index (exampleInNode ''_idx_''))
            (JObj [(''q'', JStr ''name:a''), (''limit'', JNum 10), (''query'', JStr ''name:a''),
                   (''include_docs'', JBool True)]))]"
    by (rule conjunct1)
  have a': "snd (snd (inStep exampleRuntime (exampleInNode ''_idx_'', [])
       (Receive [(''payload'', JObj [(''q'', JStr ''name:a''), (''limit'', JNum 10)])]))) =
     [Call (DbSearch ''orders'' ''ddoc'' ''byName''
            (JObj [(''q'', JStr ''name:a''), (''limit'', JNum 10), (''query'', JStr ''name:a''),
                   (''include_docs'', JBool True)]))]"
    unfolding a by (simp add: exampleInNode_def)
  have b: "getProp [(''q'', JStr ''name:a''), (''limit'', JNum 10), (''query'', JStr ''name:a''),
               (''include_docs'', JBool True)] ''limit'' = JNum 10"
    by (simp add: getProp_def)
  from a' b show ?thesis by (rule conjI)
qed

theorem search_defaults_when_falsy_counterexample:
  "snd (snd (inStep exampleRuntime (exampleInNode ''_idx_'', [])
       (Receive [(''payload'', JObj [(''q'', JStr ''name:a''), (''include_docs'', JBool False),
                                     (''limit'', JNum 0)])]))) =
     [Call (DbSearch ''orders'' ''ddoc'' ''byName''
            (JObj [(''q'', JStr ''name:a''), (''include_docs'', JBool True), (''limit'', JNum 200),
                   (''query'', JStr ''name:a'')]))]"
  by code_simp

subsection \<open>The database name\<close>


text \<open>
  What the three steps of \<^verbatim>\<open>_cleanDatabaseName\<close> do give: no character of the
  result has a lower-case form of its own, none is white space, a slash or a backslash,
  and a run of these in the input has become one hyphen. The result begins with an
  underscore exactly when the input begins with two, and cleaning a second time changes
  the name exactly then.
\<close>

lemma cleanDatabaseName_My_Orders:
  "cleanDatabaseName ''My Orders/2024'' =
     (''my-orders-2024'',
      [''Database renamed  as '' @ [CHR 0x27] @ ''my-orders-2024'' @ [CHR 0x27] @ ''.''])"
  by code_simp

lemma hyphen_not_sep: "\<not> isSpaceOrSlash CHR ''-''"
  by (simp add: isSpaceOrSlash_def isWhiteSpace_def)

lemma underscore_not_sep: "\<not> isSpaceOrSlash CHR ''_''"
  by (simp add: isSpaceOrSlash_def isWhiteSpace_def)

lemma replaceSpaceOrSlashRuns_clean:
  "list_all (\<lambda>c. \<not> isSpaceOrSlash c) (replaceSpaceOrSlashRuns s)"
  by (induction s rule: replaceSpaceOrSlashRuns.induct) (simp_all add: hyphen_not_sep)

lemma replaceSpaceOrSlashRuns_chars:
  "set (replaceSpaceOrSlashRuns s) \<subseteq> insert CHR ''-'' (set s)"
  by (induction s rule: replaceSpaceOrSlashRuns.induct) (auto dest: set_dropWhileD)

lemma replaceSpaceOrSlashRuns_id:
  "list_all (\<lambda>c. \<not> isSpaceOrSlash c) s \<Longrightarrow> replaceSpaceOrSlashRuns s = s"
  by (induction s) simp_all

lemma toLowerCaseChar_not_upper: "\<not> isUpperCase (toLowerCaseChar c)"
  by (auto simp: toLowerCaseChar_def isUpperCase_def Let_def)

lemma toLowerCaseChar_id: "\<not> isUpperCase c \<Longrightarrow> toLowerCaseChar c = c"
  by (simp add: toLowerCaseChar_def)

lemma hyphen_not_upper: "\<not> isUpperCase CHR ''-''"
  by (simp add: isUpperCase_def)

lemma toLowerCaseChar_underscore: "toLowerCaseChar c = CHR ''_'' \<longleftrightarrow> c = CHR ''_''"
proof
  assume a: "toLowerCaseChar c = CHR ''_''"
  show "c = CHR ''_''"
  proof (cases "isUpperCase c")
    case False
    with a show ?thesis by (simp add: toLowerCaseChar_def)
  next
    case True
    with a have "char_of ((of_char c :: nat) + 32) = CHR ''_''" by (simp add: toLowerCaseChar_def)
    then have "of_char (char_of ((of_char c :: nat) + 32)) = (of_char CHR ''_'' :: nat)" by simp
    with True show ?thesis by (auto simp: isUpperCase_def Let_def)
  qed
next
  assume "c = CHR ''_''"
  then show "toLowerCaseChar c = CHR ''_''" by (simp add: toLowerCaseChar_def isUpperCase_def)
qed

lemma replaceSpaceOrSlashRuns_underscore:
  "(\<exists>r. replaceSpaceOrSlashRuns y = CHR ''_'' # r) \<longleftrightarrow> (\<exists>r. y = CHR ''_'' # r)"
  by (cases y) (auto simp: underscore_not_sep)

lemma replaceLeadingUnderscore_underscore:
  "(\<exists>r. replaceLeadingUnderscore (toLowerCase s) = CHR ''_'' # r)
     \<longleftrightarrow> (\<exists>r. s = CHR ''_'' # CHR ''_'' # r)"
proof (cases s)
  case Nil
  then show ?thesis by (simp add: toLowerCase_def)
next
  case (Cons c cs)
  then show ?thesis
    by (cases cs) (auto simp: toLowerCase_def toLowerCaseChar_underscore)
qed

lemma cleanDatabaseName_lowercase:
  "list_all (\<lambda>c. \<not> isUpperCase c) (fst (cleanDatabaseName s))"
proof -
  have a: "set (replaceLeadingUnderscore t) \<subseteq> set t" for t
    by (cases t) auto
  have "set (fst (cleanDatabaseName s)) \<subseteq> insert CHR ''-'' (set (toLowerCase s))"
    using replaceSpaceOrSlashRuns_chars [of "replaceLeadingUnderscore (toLowerCase s)"]
      a [of "toLowerCase s"]
    by (auto simp: cleanDatabaseName_def Let_def)
  then show ?thesis
    by (auto simp: list_all_iff toLowerCase_def hyphen_not_upper toLowerCaseChar_not_upper)
qed

lemma cleanDatabaseName_no_space_or_slash:
  "list_all (\<lambda>c. \<not> isSpaceOrSlash c) (fst (cleanDatabaseName s))"
  by (simp add: cleanDatabaseName_def Let_def replaceSpaceOrSlashRuns_clean)

lemma cleanDatabaseName_underscore_iff:
  "(\<exists>r. fst (cleanDatabaseName s) = CHR ''_'' # r) \<longleftrightarrow> (\<exists>r. s = CHR ''_'' # CHR ''_'' # r)"
  by (simp add: cleanDatabaseName_def Let_def replaceSpaceOrSlashRuns_underscore
      replaceLeadingUnderscore_underscore)

lemma cleanDatabaseName_again:
  "fst (cleanDatabaseName (fst (cleanDatabaseName s))) =
     replaceLeadingUnderscore (fst (cleanDatabaseName s))"
proof -
  let ?r = "fst (cleanDatabaseName s)"
  have l: "toLowerCase ?r = ?r"
    using cleanDatabaseName_lowercase [of s]
    by (simp add: toLowerCase_def list_all_iff toLowerCaseChar_id map_idI)
  have "list_all (\<lambda>c. \<not> isSpaceOrSlash c) (replaceLeadingUnderscore ?r)"
    using cleanDatabaseName_no_space_or_slash [of s]
    by (cases ?r) (auto simp: list_all_iff)
  then have "replaceSpaceOrSlashRuns (replaceLeadingUnderscore ?r) = replaceLeadingUnderscore ?r"
    by (rule replaceSpaceOrSlashRuns_id)
  with l show ?thesis
    by (simp add: cleanDatabaseName_def [of ?r] Let_def)
qed

lemma cleanDatabaseName_idempotent_iff:
  "fst (cleanDatabaseName (fst (cleanDatabaseName s))) = fst (cleanDatabaseName s)
     \<longleftrightarrow> \<not> (\<exists>r. s = CHR ''_'' # CHR ''_'' # r)"
proof -
  have "replaceLeadingUnderscore t = t \<longleftrightarrow> \<not> (\<exists>r. t = CHR ''_'' # r)" for t
    by (cases t) auto
  then show ?thesis
    by (simp only: cleanDatabaseName_again cleanDatabaseName_underscore_iff)
qed

text \<open>
  C5. Only one underscore is taken off the front: the name \<^verbatim>\<open>__orders\<close> becomes
  \<^verbatim>\<open>_orders\<close>, which begins with an underscore.
\<close>

theorem cleanDatabaseName_leading_underscore:
  "cleanDatabaseName ''__orders'' =
     (''_orders'', [''Database renamed  as '' @ [CHR 0x27] @ ''_orders'' @ [CHR 0x27] @ ''.''])"
  by code_simp

text \<open>
  C4. Cleaning the name \<^verbatim>\<open>__orders\<close> twice gives \<^verbatim>\<open>orders\<close>, cleaning it once
  gives \<^verbatim>\<open>_orders\<close>.
\<close>

theorem cleanDatabaseName_twice:
  "fst (cleanDatabaseName (fst (cleanDatabaseName ''__orders''))) = ''orders''
   \<and> fst (cleanDatabaseName ''__orders'') = ''_orders''"
  by code_simp

end
